theory Spec2Isabelle
  imports Complex_Main
begin

section \<open>JavaScript numbers\<close>

text \<open>
  The components of a Vector are JavaScript numbers. The special values of a number are
  modelled one by one: \<open>NaN\<close>, \<open>+Infinity\<close>, \<open>-Infinity\<close>, the negative zero \<open>-0\<close>, and
  \<open>Fin r\<close> for every other value (\<open>Fin 0\<close> is \<open>+0\<close>). The operators follow the case
  tables of ECMAScript (Number::add, Number::multiply, Number::divide, \<open>===\<close>, ToBoolean).
  A finite result is kept as the exact real: rounding to 53 bits and overflow are not
  modelled. The theorems below use finite arithmetic only through identities that are exact
  for doubles too (\<open>x * 1\<close>, \<open>x * 0\<close>, \<open>x + 0\<close>, \<open>x + (-x)\<close>, \<open>1 - 0\<close>, \<open>1 - 1\<close>,
  commutativity of \<open>*\<close>).
\<close>

datatype number = NaN | PInf | NInf | NZero | Fin real

fun is_nan :: "number \<Rightarrow> bool" where
  "is_nan NaN = True"
| "is_nan _ = False"

fun is_inf :: "number \<Rightarrow> bool" where
  "is_inf PInf = True"
| "is_inf NInf = True"
| "is_inf _ = False"

fun is_zero :: "number \<Rightarrow> bool" where
  "is_zero NZero = True"
| "is_zero (Fin r) = (r = 0)"
| "is_zero _ = False"

text \<open>The sign bit of a number that is not NaN.\<close>

fun sign_neg :: "number \<Rightarrow> bool" where
  "sign_neg NInf = True"
| "sign_neg NZero = True"
| "sign_neg (Fin r) = (r < 0)"
| "sign_neg _ = False"

fun real_of :: "number \<Rightarrow> real" where
  "real_of (Fin r) = r"
| "real_of _ = 0"

definition signed_inf :: "bool \<Rightarrow> number" where
  "signed_inf neg = (if neg then NInf else PInf)"

definition signed_zero :: "bool \<Rightarrow> number" where
  "signed_zero neg = (if neg then NZero else Fin 0)"

text \<open>Unary minus.\<close>

fun num_neg :: "number \<Rightarrow> number" where
  "num_neg NaN = NaN"
| "num_neg PInf = NInf"
| "num_neg NInf = PInf"
| "num_neg NZero = Fin 0"
| "num_neg (Fin r) = (if r = 0 then NZero else Fin (- r))"

text \<open>\<open>x + y\<close>; an exact sum of zero is \<open>+0\<close> unless both operands are \<open>-0\<close>.\<close>

fun num_add :: "number \<Rightarrow> number \<Rightarrow> number" where
  "num_add NaN _ = NaN"
| "num_add _ NaN = NaN"
| "num_add PInf NInf = NaN"
| "num_add NInf PInf = NaN"
| "num_add PInf _ = PInf"
| "num_add _ PInf = PInf"
| "num_add NInf _ = NInf"
| "num_add _ NInf = NInf"
| "num_add NZero NZero = NZero"
| "num_add NZero (Fin s) = Fin s"
| "num_add (Fin r) NZero = Fin r"
| "num_add (Fin r) (Fin s) = Fin (r + s)"

text \<open>\<open>x - y\<close> is \<open>x + (-y)\<close>.\<close>

definition num_sub :: "number \<Rightarrow> number \<Rightarrow> number" where
  "num_sub x y = num_add x (num_neg y)"

text \<open>\<open>x * y\<close>.\<close>

definition num_mul :: "number \<Rightarrow> number \<Rightarrow> number" where
  "num_mul x y =
     (if is_nan x \<or> is_nan y then NaN
      else if (is_inf x \<and> is_zero y) \<or> (is_zero x \<and> is_inf y) then NaN
      else if is_inf x \<or> is_inf y then signed_inf (sign_neg x \<noteq> sign_neg y)
      else if is_zero x \<or> is_zero y then signed_zero (sign_neg x \<noteq> sign_neg y)
      else Fin (real_of x * real_of y))"

text \<open>\<open>x / y\<close>: nothing is raised for a zero divisor.\<close>

definition num_div :: "number \<Rightarrow> number \<Rightarrow> number" where
  "num_div x y =
     (if is_nan x \<or> is_nan y then NaN
      else if (is_inf x \<and> is_inf y) \<or> (is_zero x \<and> is_zero y) then NaN
      else if is_inf x \<or> is_zero y then signed_inf (sign_neg x \<noteq> sign_neg y)
      else if is_inf y \<or> is_zero x then signed_zero (sign_neg x \<noteq> sign_neg y)
      else Fin (real_of x / real_of y))"

text \<open>\<open>Math.sqrt\<close>, \<open>Math.cos\<close>, \<open>Math.sin\<close>.\<close>

fun num_sqrt :: "number \<Rightarrow> number" where
  "num_sqrt NaN = NaN"
| "num_sqrt PInf = PInf"
| "num_sqrt NInf = NaN"
| "num_sqrt NZero = NZero"
| "num_sqrt (Fin r) = (if r < 0 then NaN else Fin (sqrt r))"

fun num_cos :: "number \<Rightarrow> number" where
  "num_cos NZero = Fin 1"
| "num_cos (Fin r) = Fin (cos r)"
| "num_cos _ = NaN"

fun num_sin :: "number \<Rightarrow> number" where
  "num_sin NZero = NZero"
| "num_sin (Fin r) = Fin (sin r)"
| "num_sin _ = NaN"

text \<open>\<open>x === y\<close> on numbers: NaN equals nothing, the two zeros equal each other.\<close>

definition strict_eq :: "number \<Rightarrow> number \<Rightarrow> bool" where
  "strict_eq x y = (\<not> is_nan x \<and> \<not> is_nan y \<and> (x = y \<or> (is_zero x \<and> is_zero y)))"

text \<open>ToBoolean on numbers: \<open>+0\<close>, \<open>-0\<close> and NaN are falsy.\<close>

definition truthy :: "number \<Rightarrow> bool" where
  "truthy x = (\<not> is_nan x \<and> \<not> is_zero x)"

text \<open>
  \<open>a || d\<close> where \<open>a\<close> is a number or \<open>undefined\<close> (\<open>None\<close>: the argument was omitted)
  and \<open>d\<close> a number.
\<close>

definition js_or :: "number option \<Rightarrow> number \<Rightarrow> number" where
  "js_or a d = (case a of None \<Rightarrow> d | Some v \<Rightarrow> if truthy v then v else d)"

section \<open>The Vector class on a store\<close>

text \<open>
  A Vector object is its three fields (named \<open>vx\<close>, \<open>vy\<close>, \<open>vz\<close> here, for \<open>x\<close>, \<open>y\<close>,
  \<open>z\<close>). Objects live in a store, a list indexed by reference; \<open>new\<close> appends to it.
  Every method takes the store and returns its result with the store after the call.
\<close>

record vector =
  vx :: number
  vy :: number
  vz :: number

type_synonym ref = nat
type_synonym heap = "vector list"

text \<open>The second operand of an arithmetic method: \<open>b instanceof Vector\<close>, or a number.\<close>

datatype operand = VectorRef ref | Scalar number

definition set_x :: "ref \<Rightarrow> number \<Rightarrow> heap \<Rightarrow> heap" where
  "set_x r v h = h[r := (h ! r)\<lparr>vx := v\<rparr>]"

definition set_y :: "ref \<Rightarrow> number \<Rightarrow> heap \<Rightarrow> heap" where
  "set_y r v h = h[r := (h ! r)\<lparr>vy := v\<rparr>]"

definition set_z :: "ref \<Rightarrow> number \<Rightarrow> heap \<Rightarrow> heap" where
  "set_z r v h = h[r := (h ! r)\<lparr>vz := v\<rparr>]"

text \<open>\<open>constructor( x, y, z )\<close>: each field is \<open>arg || 0\<close>.\<close>

definition new_Vector :: "number option \<Rightarrow> number option \<Rightarrow> number option \<Rightarrow> heap \<Rightarrow> ref \<times> heap" where
  "new_Vector x y z h =
     (length h, h @ [\<lparr>vx = js_or x (Fin 0), vy = js_or y (Fin 0), vz = js_or z (Fin 0)\<rparr>])"

text \<open>The default parameter \<open>c: Vector = new Vector( 0,0,0 )\<close> of the static methods.\<close>

definition out_or_new :: "ref option \<Rightarrow> heap \<Rightarrow> ref \<times> heap" where
  "out_or_new c h =
     (case c of
        Some r \<Rightarrow> (r, h)
      | None \<Rightarrow> new_Vector (Some (Fin 0)) (Some (Fin 0)) (Some (Fin 0)) h)"

subsection \<open>Static methods\<close>

text \<open>
  \<open>static add( a, b, c = new Vector( 0,0,0 ))\<close> and its three siblings differ in the
  operator only. The three fields of \<open>c\<close> are assigned one after the other, and each
  right-hand side reads \<open>a\<close> and \<open>b\<close> from the store as it is at that moment, so that
  \<open>c\<close> may be the same object as \<open>a\<close> or \<open>b\<close>.
\<close>

definition static_op :: "(number \<Rightarrow> number \<Rightarrow> number) \<Rightarrow> ref \<Rightarrow> operand \<Rightarrow> ref option \<Rightarrow> heap \<Rightarrow> ref \<times> heap" where
  "static_op f a b c0 h0 =
     (case out_or_new c0 h0 of (c, h) \<Rightarrow>
        (case b of
           VectorRef b \<Rightarrow>
             (let h1 = set_x c (f (vx (h ! a)) (vx (h ! b))) h;
                  h2 = set_y c (f (vy (h1 ! a)) (vy (h1 ! b))) h1;
                  h3 = set_z c (f (vz (h2 ! a)) (vz (h2 ! b))) h2
              in (c, h3))
         | Scalar b \<Rightarrow>
             (let h1 = set_x c (f (vx (h ! a)) b) h;
                  h2 = set_y c (f (vy (h1 ! a)) b) h1;
                  h3 = set_z c (f (vz (h2 ! a)) b) h2
              in (c, h3))))"

definition Vector_add :: "ref \<Rightarrow> operand \<Rightarrow> ref option \<Rightarrow> heap \<Rightarrow> ref \<times> heap" where
  "Vector_add = static_op num_add"

definition Vector_subtract :: "ref \<Rightarrow> operand \<Rightarrow> ref option \<Rightarrow> heap \<Rightarrow> ref \<times> heap" where
  "Vector_subtract = static_op num_sub"

definition Vector_multiply :: "ref \<Rightarrow> operand \<Rightarrow> ref option \<Rightarrow> heap \<Rightarrow> ref \<times> heap" where
  "Vector_multiply = static_op num_mul"

definition Vector_divide :: "ref \<Rightarrow> operand \<Rightarrow> ref option \<Rightarrow> heap \<Rightarrow> ref \<times> heap" where
  "Vector_divide = static_op num_div"

text \<open>\<open>static negative( a, b = new Vector( 0,0,0 ))\<close>.\<close>

definition Vector_negative :: "ref \<Rightarrow> ref option \<Rightarrow> heap \<Rightarrow> ref \<times> heap" where
  "Vector_negative a b0 h0 =
     (case out_or_new b0 h0 of (b, h) \<Rightarrow>
        (let h1 = set_x b (num_neg (vx (h ! a))) h;
             h2 = set_y b (num_neg (vy (h1 ! a))) h1;
             h3 = set_z b (num_neg (vz (h2 ! a))) h2
         in (b, h3)))"

text \<open>\<open>static cross( a, b, c = new Vector( 0,0,0 ))\<close>.\<close>

definition Vector_cross :: "ref \<Rightarrow> ref \<Rightarrow> ref option \<Rightarrow> heap \<Rightarrow> ref \<times> heap" where
  "Vector_cross a b c0 h0 =
     (case out_or_new c0 h0 of (c, h) \<Rightarrow>
        (let h1 = set_x c (num_sub (num_mul (vy (h ! a)) (vz (h ! b)))
                                   (num_mul (vz (h ! a)) (vy (h ! b)))) h;
             h2 = set_y c (num_sub (num_mul (vz (h1 ! a)) (vx (h1 ! b)))
                                   (num_mul (vx (h1 ! a)) (vz (h1 ! b)))) h1;
             h3 = set_z c (num_sub (num_mul (vx (h2 ! a)) (vy (h2 ! b)))
                                   (num_mul (vy (h2 ! a)) (vx (h2 ! b)))) h2
         in (c, h3)))"

subsection \<open>Instance methods\<close>

text \<open>
  \<open>add( v )\<close>, \<open>subtract( v )\<close>, \<open>multiply( v )\<close>, \<open>divide( v )\<close>: the three results are
  computed from \<open>this\<close> and \<open>v\<close> and passed to the constructor.
\<close>

definition instance_op :: "(number \<Rightarrow> number \<Rightarrow> number) \<Rightarrow> ref \<Rightarrow> operand \<Rightarrow> heap \<Rightarrow> ref \<times> heap" where
  "instance_op f this v h =
     (case v of
        VectorRef v \<Rightarrow>
          new_Vector (Some (f (vx (h ! this)) (vx (h ! v))))
                     (Some (f (vy (h ! this)) (vy (h ! v))))
                     (Some (f (vz (h ! this)) (vz (h ! v)))) h
      | Scalar v \<Rightarrow>
          new_Vector (Some (f (vx (h ! this)) v))
                     (Some (f (vy (h ! this)) v))
                     (Some (f (vz (h ! this)) v)) h)"

definition add :: "ref \<Rightarrow> operand \<Rightarrow> heap \<Rightarrow> ref \<times> heap" where
  "add = instance_op num_add"

definition subtract :: "ref \<Rightarrow> operand \<Rightarrow> heap \<Rightarrow> ref \<times> heap" where
  "subtract = instance_op num_sub"

definition multiply :: "ref \<Rightarrow> operand \<Rightarrow> heap \<Rightarrow> ref \<times> heap" where
  "multiply = instance_op num_mul"

definition divide_v :: "ref \<Rightarrow> operand \<Rightarrow> heap \<Rightarrow> ref \<times> heap" where
  "divide_v = instance_op num_div"

definition negative :: "ref \<Rightarrow> heap \<Rightarrow> ref \<times> heap" where
  "negative this h =
     new_Vector (Some (num_neg (vx (h ! this))))
                (Some (num_neg (vy (h ! this))))
                (Some (num_neg (vz (h ! this)))) h"

definition cross :: "ref \<Rightarrow> ref \<Rightarrow> heap \<Rightarrow> ref \<times> heap" where
  "cross this v h =
     new_Vector
       (Some (num_sub (num_mul (vy (h ! this)) (vz (h ! v))) (num_mul (vz (h ! this)) (vy (h ! v)))))
       (Some (num_sub (num_mul (vz (h ! this)) (vx (h ! v))) (num_mul (vx (h ! this)) (vz (h ! v)))))
       (Some (num_sub (num_mul (vx (h ! this)) (vy (h ! v))) (num_mul (vy (h ! this)) (vx (h ! v)))))
       h"

text \<open>\<open>equals( v )\<close>: \<open>this.x === v.x && this.y === v.y && this.z === v.z\<close>.\<close>

definition equals :: "ref \<Rightarrow> ref \<Rightarrow> heap \<Rightarrow> bool" where
  "equals this v h =
     (strict_eq (vx (h ! this)) (vx (h ! v)) \<and>
      strict_eq (vy (h ! this)) (vy (h ! v)) \<and>
      strict_eq (vz (h ! this)) (vz (h ! v)))"

text \<open>\<open>dot( v )\<close>: \<open>this.x * v.x + this.y * v.y + this.z * v.z\<close>, summed from the left.\<close>

definition dot :: "ref \<Rightarrow> ref \<Rightarrow> heap \<Rightarrow> number" where
  "dot this v h =
     num_add (num_add (num_mul (vx (h ! this)) (vx (h ! v)))
                      (num_mul (vy (h ! this)) (vy (h ! v))))
             (num_mul (vz (h ! this)) (vz (h ! v)))"

text \<open>
  \<open>length()\<close> is \<open>Math.sqrt( this.dot( this ))\<close>; the second module names it
  \<open>magnitude()\<close> and binds \<open>length\<close> to it.
\<close>

definition magnitude :: "ref \<Rightarrow> heap \<Rightarrow> number" where
  "magnitude this h = num_sqrt (dot this this h)"

definition length_v :: "ref \<Rightarrow> heap \<Rightarrow> number" where
  "length_v = magnitude"

text \<open>\<open>unit()\<close> is \<open>this.divide( this.length())\<close>.\<close>

definition unit :: "ref \<Rightarrow> heap \<Rightarrow> ref \<times> heap" where
  "unit this h = divide_v this (Scalar (length_v this h)) h"

text \<open>\<open>static unit( a, b = new Vector( 0,0,0 ))\<close>: the length is read once, before the writes.\<close>

definition Vector_unit :: "ref \<Rightarrow> ref option \<Rightarrow> heap \<Rightarrow> ref \<times> heap" where
  "Vector_unit a b0 h0 =
     (case out_or_new b0 h0 of (b, h) \<Rightarrow>
        (let len = length_v a h;
             h1 = set_x b (num_div (vx (h ! a)) len) h;
             h2 = set_y b (num_div (vy (h1 ! a)) len) h1;
             h3 = set_z b (num_div (vz (h2 ! a)) len) h2
         in (b, h3)))"

text \<open>\<open>init( x, y, z )\<close>: assigns the three fields of \<open>this\<close> and returns \<open>this\<close>.\<close>

definition init :: "ref \<Rightarrow> number \<Rightarrow> number \<Rightarrow> number \<Rightarrow> heap \<Rightarrow> ref \<times> heap" where
  "init this x y z h = (this, set_z this z (set_y this y (set_x this x h)))"

text \<open>\<open>static lerp( a, b, t )\<close>: \<open>a.multiply( 1 - t ).add( b.multiply( t ))\<close>.\<close>

definition Vector_lerp :: "ref \<Rightarrow> ref \<Rightarrow> number \<Rightarrow> heap \<Rightarrow> ref \<times> heap" where
  "Vector_lerp a b t h =
     (case multiply a (Scalar (num_sub (Fin 1) t)) h of (p, h1) \<Rightarrow>
        (case multiply b (Scalar t) h1 of (q, h2) \<Rightarrow>
           add p (VectorRef q) h2))"

text \<open>
  The spherical constructors of the two modules: \<open>fromPhiTheta( phi, theta )\<close> and
  \<open>fromAngles( theta, phi )\<close>.
\<close>

definition Vector_fromPhiTheta :: "number \<Rightarrow> number \<Rightarrow> heap \<Rightarrow> ref \<times> heap" where
  "Vector_fromPhiTheta phi theta h =
     new_Vector (Some (num_mul (num_cos phi) (num_cos theta)))
                (Some (num_sin phi))
                (Some (num_mul (num_cos phi) (num_sin theta))) h"

definition Vector_fromAngles :: "number \<Rightarrow> number \<Rightarrow> heap \<Rightarrow> ref \<times> heap" where
  "Vector_fromAngles theta phi h =
     new_Vector (Some (num_mul (num_cos theta) (num_cos phi)))
                (Some (num_sin phi))
                (Some (num_mul (num_sin theta) (num_cos phi))) h"

subsection \<open>toArray\<close>

text \<open>
  \<open>[ this.x, this.y, this.z ].slice( 0, n || 3 )\<close>. \<open>slice\<close> converts its end with
  ToIntegerOrInfinity (NaN becomes 0, a fraction is truncated towards 0), counts a negative
  end back from the length, and bounds the result by 0 and the length.
\<close>

definition trunc :: "real \<Rightarrow> int" where
  "trunc r = (if r < 0 then \<lceil>r\<rceil> else \<lfloor>r\<rfloor>)"

fun slice_final :: "nat \<Rightarrow> number \<Rightarrow> nat" where
  "slice_final len NaN = 0"
| "slice_final len NZero = 0"
| "slice_final len PInf = len"
| "slice_final len NInf = 0"
| "slice_final len (Fin r) =
     (if trunc r < 0 then nat (max (int len + trunc r) 0)
      else nat (min (trunc r) (int len)))"

definition slice0 :: "'a list \<Rightarrow> number \<Rightarrow> 'a list" where
  "slice0 xs e = take (slice_final (length xs) e) xs"

definition toArray :: "ref \<Rightarrow> number option \<Rightarrow> heap \<Rightarrow> number list" where
  "toArray this n h =
     slice0 [vx (h ! this), vy (h ! this), vz (h ! this)] (js_or n (Fin 3))"

section \<open>Notions used to state the properties\<close>

text \<open>The object that a call returns, read in the store after the call.\<close>

definition result :: "ref \<times> heap \<Rightarrow> vector" where
  "result p = snd p ! fst p"

text \<open>
  The second operand as a vector: a Vector is combined component by component, a scalar
  is broadcast to the three components.
\<close>

fun operand_value :: "operand \<Rightarrow> heap \<Rightarrow> vector" where
  "operand_value (VectorRef r) h = h ! r"
| "operand_value (Scalar s) h = \<lparr>vx = s, vy = s, vz = s\<rparr>"

fun operand_ok :: "operand \<Rightarrow> heap \<Rightarrow> bool" where
  "operand_ok (VectorRef r) h = (r < length h)"
| "operand_ok (Scalar s) h = True"

definition componentwise :: "(number \<Rightarrow> number \<Rightarrow> number) \<Rightarrow> vector \<Rightarrow> vector \<Rightarrow> vector" where
  "componentwise f u w = \<lparr>vx = f (vx u) (vx w), vy = f (vy u) (vy w), vz = f (vz u) (vz w)\<rparr>"

text \<open>What the constructor makes of three computed fields: each one is \<open>field || 0\<close>.\<close>

definition coerce :: "vector \<Rightarrow> vector" where
  "coerce v = \<lparr>vx = js_or (Some (vx v)) (Fin 0),
               vy = js_or (Some (vy v)) (Fin 0),
               vz = js_or (Some (vz v)) (Fin 0)\<rparr>"

definition nan_free :: "vector \<Rightarrow> bool" where
  "nan_free v = (\<not> is_nan (vx v) \<and> \<not> is_nan (vy v) \<and> \<not> is_nan (vz v))"

definition all_zero :: "vector \<Rightarrow> bool" where
  "all_zero v = (is_zero (vx v) \<and> is_zero (vy v) \<and> is_zero (vz v))"

text \<open>\<open>===\<close> on the three fields of two vector values.\<close>

definition same_fields :: "vector \<Rightarrow> vector \<Rightarrow> bool" where
  "same_fields u w = (strict_eq (vx u) (vx w) \<and> strict_eq (vy u) (vy w) \<and> strict_eq (vz u) (vz w))"

text \<open>
  A call allocates: it returns a reference that the store before the call does not hold,
  to the one object it appends, and every object of the store before the call is as it was.
\<close>

definition allocates :: "heap \<Rightarrow> ref \<times> heap \<Rightarrow> bool" where
  "allocates h p = (fst p = length h \<and> length (snd p) = Suc (length h) \<and> take (length h) (snd p) = h)"

text \<open>
  A call writes only into \<open>c\<close>: it returns \<open>c\<close>, allocates nothing, and every object
  other than \<open>c\<close> is as it was.
\<close>

definition writes_only :: "ref \<Rightarrow> heap \<Rightarrow> ref \<times> heap \<Rightarrow> bool" where
  "writes_only c h p =
     (fst p = c \<and> length (snd p) = length h \<and> (\<forall>r < length h. r \<noteq> c \<longrightarrow> snd p ! r = h ! r))"

text \<open>
  How a field of a constructed vector relates to its argument: 0 for an omitted or falsy
  argument, the argument itself when it is truthy, and \<open>===\<close> to it whenever it is not NaN.
\<close>

definition field_of_arg :: "number option \<Rightarrow> number \<Rightarrow> bool" where
  "field_of_arg arg c =
     (case arg of
        None \<Rightarrow> c = Fin 0
      | Some v \<Rightarrow> (\<not> truthy v \<longrightarrow> c = Fin 0) \<and> (truthy v \<longrightarrow> c = v) \<and> (\<not> is_nan v \<longrightarrow> strict_eq c v))"

text \<open>
  \<open>toArray\<close> as the specification words it: the first \<open>n\<close> components, with \<open>n\<close> clamped
  to the range from 0 to 3, and with \<open>n\<close> omitted or falsy standing for 3.
\<close>

fun clamp03 :: "number \<Rightarrow> nat" where
  "clamp03 PInf = 3"
| "clamp03 (Fin r) = (if r < 0 then 0 else if 3 < r then 3 else nat \<lfloor>r\<rfloor>)"
| "clamp03 _ = 0"

definition toArray_clamped :: "ref \<Rightarrow> number option \<Rightarrow> heap \<Rightarrow> number list" where
  "toArray_clamped this n h =
     take (clamp03 (js_or n (Fin 3))) [vx (h ! this), vy (h ! this), vz (h ! this)]"

text \<open>A number that is neither NaN nor an infinity.\<close>

definition finite_number :: "number \<Rightarrow> bool" where
  "finite_number x = (\<not> is_nan x \<and> \<not> is_inf x)"

text \<open>
  The spherical construction as the specification words it:
  \<open>x = cos(phi) * cos(theta)\<close>, \<open>y = sin(phi)\<close>, \<open>z = cos(phi) * sin(theta)\<close>.
\<close>

definition spherical :: "number \<Rightarrow> number \<Rightarrow> vector" where
  "spherical phi theta =
     \<lparr>vx = num_mul (num_cos phi) (num_cos theta),
      vy = num_sin phi,
      vz = num_mul (num_cos phi) (num_sin theta)\<rparr>"

text \<open>The two vectors of the test suite, \<open>v1 = new Vector(1, 2, 3)\<close> and \<open>v2 = new Vector(4, 5, 6)\<close>:
  the store that holds them as objects 0 and 1.\<close>

definition tests_heap :: heap where
  "tests_heap =
     (case new_Vector (Some (Fin 1)) (Some (Fin 2)) (Some (Fin 3)) [] of (v1, h) \<Rightarrow>
        snd (new_Vector (Some (Fin 4)) (Some (Fin 5)) (Some (Fin 6)) h))"

section \<open>Basic facts\<close>

lemma vector_update_all [simp]:
  "(v::vector)\<lparr>vx := a, vy := b, vz := c\<rparr> = \<lparr>vx = a, vy = b, vz = c\<rparr>"
  by (cases v) simp

lemma strict_eq_js_or: "\<not> is_nan v \<Longrightarrow> strict_eq (js_or (Some v) (Fin 0)) v"
  by (cases v) (auto simp: js_or_def truthy_def strict_eq_def)

lemma num_mul_commute: "num_mul x y = num_mul y x"
proof -
  have "(sign_neg x \<noteq> sign_neg y) = (sign_neg y \<noteq> sign_neg x)"
    by auto
  then show ?thesis
    unfolding num_mul_def by (simp add: mult.commute disj_commute conj_commute)
qed

text \<open>The static methods, with \<open>c\<close> given and with \<open>c\<close> omitted, and the instance methods.\<close>

lemma static_op_some:
  assumes "a < length h" "operand_ok b h" "c < length h"
  shows "static_op f a b (Some c) h = (c, h[c := componentwise f (h ! a) (operand_value b h)])"
  using assms
  by (cases b)
     (auto simp: static_op_def out_or_new_def Let_def set_x_def set_y_def set_z_def
                 componentwise_def nth_list_update)

lemma static_op_none:
  assumes "a < length h" "operand_ok b h"
  shows "static_op f a b None h = (length h, h @ [componentwise f (h ! a) (operand_value b h)])"
  using assms
  by (cases b)
     (auto simp: static_op_def out_or_new_def new_Vector_def Let_def set_x_def set_y_def
                 set_z_def componentwise_def nth_list_update nth_append)

lemma instance_op_eq:
  "instance_op f a b h = (length h, h @ [coerce (componentwise f (h ! a) (operand_value b h))])"
  by (cases b) (auto simp: instance_op_def new_Vector_def coerce_def componentwise_def)

text \<open>\<open>toArray\<close>, case by case on the argument.\<close>

lemma take3_min: "take (nat (min k 3)) [a, b, c] = take (nat k) [a, b, c]"
  by (cases "k \<le> 3") (simp_all add: min_def)

lemma toArray_default:
  "n = None \<or> n = Some NaN \<or> n = Some NZero \<or> n = Some (Fin 0) \<Longrightarrow>
     toArray v n h = [vx (h ! v), vy (h ! v), vz (h ! v)]"
  by (auto simp: toArray_def slice0_def js_or_def truthy_def trunc_def)

lemma toArray_pos:
  "0 < r \<Longrightarrow>
     toArray v (Some (Fin r)) h = take (nat \<lfloor>r\<rfloor>) [vx (h ! v), vy (h ! v), vz (h ! v)]"
  by (simp add: toArray_def slice0_def js_or_def truthy_def trunc_def take3_min)

lemma toArray_small_neg:
  assumes "- 1 < r" "r < 0"
  shows "toArray v (Some (Fin r)) h = []"
proof -
  from assms have "\<lceil>r\<rceil> = 0" by linarith
  with \<open>r < 0\<close> show ?thesis
    by (simp add: toArray_def slice0_def js_or_def truthy_def trunc_def)
qed

lemma toArray_neg:
  assumes "r \<le> - 1"
  shows "toArray v (Some (Fin r)) h =
           take (nat (3 + \<lceil>r\<rceil>)) [vx (h ! v), vy (h ! v), vz (h ! v)]"
proof -
  from assms have "\<lceil>r\<rceil> < 0" "r < 0" by linarith+
  then show ?thesis
    by (simp add: toArray_def slice0_def js_or_def truthy_def trunc_def max_def)
qed

lemma toArray_inf:
  "toArray v (Some PInf) h = [vx (h ! v), vy (h ! v), vz (h ! v)]"
  "toArray v (Some NInf) h = []"
  by (simp_all add: toArray_def slice0_def js_or_def truthy_def)

lemma toArray_clamped_pos:
  assumes "0 < r"
  shows "toArray_clamped v (Some (Fin r)) h =
           take (nat \<lfloor>r\<rfloor>) [vx (h ! v), vy (h ! v), vz (h ! v)]"
proof (cases "3 < r")
  case True
  then have "3 \<le> \<lfloor>r\<rfloor>" by linarith
  then have "3 \<le> nat \<lfloor>r\<rfloor>" by linarith
  with True assms show ?thesis
    by (simp add: toArray_clamped_def js_or_def truthy_def)
next
  case False
  with assms show ?thesis
    by (simp add: toArray_clamped_def js_or_def truthy_def)
qed

lemma toArray_clamped_neg:
  "r < 0 \<Longrightarrow> toArray_clamped v (Some (Fin r)) h = []"
  by (simp add: toArray_clamped_def js_or_def truthy_def)

lemma toArray_clamped_other:
  "n = None \<or> n = Some NaN \<or> n = Some NZero \<or> n = Some (Fin 0) \<or> n = Some PInf \<Longrightarrow>
     toArray_clamped v n h = [vx (h ! v), vy (h ! v), vz (h ! v)]"
  "toArray_clamped v (Some NInf) h = []"
  by (auto simp: toArray_clamped_def js_or_def truthy_def)

lemma toArray_eq_clamped_Fin:
  assumes "\<not> (- 3 < r \<and> r \<le> - 1)"
  shows "toArray v (Some (Fin r)) h = toArray_clamped v (Some (Fin r)) h"
proof -
  consider "0 < r" | "r = 0" | "- 1 < r" "r < 0" | "r \<le> - 3"
    using assms by linarith
  then show ?thesis
  proof cases
    case 1
    then show ?thesis by (simp add: toArray_pos toArray_clamped_pos)
  next
    case 2
    then show ?thesis by (simp add: toArray_default toArray_clamped_other)
  next
    case 3
    then show ?thesis by (simp add: toArray_small_neg toArray_clamped_neg)
  next
    case 4
    then have "3 + \<lceil>r\<rceil> \<le> 0" by linarith
    moreover from 4 have "r \<le> - 1" "r < 0" by linarith+
    ultimately show ?thesis by (simp add: toArray_neg toArray_clamped_neg)
  qed
qed

text \<open>The constructor on three computed fields, and the numbers a finite angle gives.\<close>

lemma new_Vector_result:
  "result (new_Vector (Some a) (Some b) (Some c) h) = coerce \<lparr>vx = a, vy = b, vz = c\<rparr>"
  by (simp add: new_Vector_def result_def coerce_def)

lemma same_fields_coerce: "nan_free v \<Longrightarrow> same_fields (coerce v) v"
  by (simp add: same_fields_def coerce_def nan_free_def strict_eq_js_or)

lemma num_cos_finite: "finite_number x \<Longrightarrow> finite_number (num_cos x)"
  by (cases x) (simp_all add: finite_number_def)

lemma num_sin_finite: "finite_number x \<Longrightarrow> finite_number (num_sin x)"
  by (cases x) (simp_all add: finite_number_def)

lemma num_mul_finite: "finite_number x \<Longrightarrow> finite_number y \<Longrightarrow> finite_number (num_mul x y)"
  by (cases x; cases y) (simp_all add: finite_number_def num_mul_def signed_zero_def)

lemma fromAngles_eq: "Vector_fromAngles theta phi h = Vector_fromPhiTheta phi theta h"
  by (simp add: Vector_fromAngles_def Vector_fromPhiTheta_def num_mul_commute)

text \<open>Zeros: the length of a zero vector is zero, and zero divided by zero is NaN.\<close>

lemma zero_mul: "is_zero x \<Longrightarrow> is_zero y \<Longrightarrow> is_zero (num_mul x y)"
  by (cases x; cases y) (simp_all add: num_mul_def signed_zero_def)

lemma zero_add: "is_zero x \<Longrightarrow> is_zero y \<Longrightarrow> is_zero (num_add x y)"
  by (cases x; cases y) simp_all

lemma zero_sqrt: "is_zero x \<Longrightarrow> is_zero (num_sqrt x)"
  by (cases x) simp_all

lemma zero_div_zero: "is_zero x \<Longrightarrow> is_zero y \<Longrightarrow> num_div x y = NaN"
  by (cases x; cases y) (simp_all add: num_div_def)

lemma length_v_zero: "all_zero (h ! a) \<Longrightarrow> is_zero (length_v a h)"
  by (simp add: length_v_def magnitude_def dot_def all_zero_def zero_mul zero_add zero_sqrt)

lemma div_zero_vector:
  "all_zero v \<Longrightarrow> is_zero l \<Longrightarrow>
     componentwise num_div v (operand_value (Scalar l) h) = \<lparr>vx = NaN, vy = NaN, vz = NaN\<rparr>"
  by (simp add: componentwise_def all_zero_def zero_div_zero)

text \<open>The two forms of \<open>unit\<close>.\<close>

lemma Vector_unit_some:
  assumes "a < length h" "b < length h"
  shows "Vector_unit a (Some b) h =
     (b, h[b := componentwise num_div (h ! a) (operand_value (Scalar (length_v a h)) h)])"
  using assms
  by (auto simp: Vector_unit_def out_or_new_def Let_def set_x_def set_y_def set_z_def
                 componentwise_def nth_list_update)

lemma Vector_unit_none:
  assumes "a < length h"
  shows "Vector_unit a None h =
     (length h, h @ [componentwise num_div (h ! a) (operand_value (Scalar (length_v a h)) h)])"
proof -
  have "length_v a (h @ [v]) = length_v a h" for v
    using assms by (simp add: length_v_def magnitude_def dot_def nth_append)
  with assms show ?thesis
    by (auto simp: Vector_unit_def out_or_new_def new_Vector_def Let_def set_x_def set_y_def
                   set_z_def componentwise_def nth_list_update nth_append)
qed

lemma unit_eq:
  "unit a h =
     (length h,
      h @ [coerce (componentwise num_div (h ! a) (operand_value (Scalar (length_v a h)) h))])"
  by (simp add: unit_def divide_v_def instance_op_eq)

text \<open>\<open>lerp\<close> allocates three vectors: the two products and their sum.\<close>

lemma Vector_lerp_eq:
  assumes "a < length h" "b < length h"
  shows "Vector_lerp a b t h =
     (length h + 2,
      h @ [coerce (componentwise num_mul (h ! a) (operand_value (Scalar (num_sub (Fin 1) t)) h)),
           coerce (componentwise num_mul (h ! b) (operand_value (Scalar t) h)),
           coerce (componentwise num_add
             (coerce (componentwise num_mul (h ! a) (operand_value (Scalar (num_sub (Fin 1) t)) h)))
             (coerce (componentwise num_mul (h ! b) (operand_value (Scalar t) h))))])"
  using assms
  by (simp add: Vector_lerp_def multiply_def add_def instance_op_eq nth_append)

lemma lerp0_field:
  "\<not> is_nan x \<Longrightarrow>
     strict_eq (js_or (Some (num_add (js_or (Some (num_mul x (num_sub (Fin 1) (Fin 0)))) (Fin 0))
                                      (js_or (Some (num_mul y (Fin 0))) (Fin 0)))) (Fin 0)) x"
  by (cases x; cases y)
     (auto simp: num_sub_def num_mul_def js_or_def truthy_def strict_eq_def signed_zero_def
                 signed_inf_def)

lemma lerp1_field:
  "\<not> is_nan y \<Longrightarrow>
     strict_eq (js_or (Some (num_add (js_or (Some (num_mul x (num_sub (Fin 1) (Fin 1)))) (Fin 0))
                                      (js_or (Some (num_mul y (Fin 1))) (Fin 0)))) (Fin 0)) y"
  by (cases x; cases y)
     (auto simp: num_sub_def num_mul_def js_or_def truthy_def strict_eq_def signed_zero_def
                 signed_inf_def)

lemma strict_eq_nan: "is_nan y \<Longrightarrow> \<not> strict_eq x y"
  by (simp add: strict_eq_def)

text \<open>\<open>a.add(a.negative())\<close>, field by field.\<close>

lemma add_negative_field:
  "js_or (Some (num_add x (js_or (Some (num_neg x)) (Fin 0)))) (Fin 0) = Fin 0"
  by (cases x) (auto simp: js_or_def truthy_def)

lemma negative_eq:
  "negative a h = (length h, h @ [coerce (componentwise (\<lambda>u w. num_neg u) (h ! a) (h ! a))])"
  by (simp add: negative_def new_Vector_def coerce_def componentwise_def)

text \<open>Field writes keep the length of the store and every other object.\<close>

lemma set_length [simp]:
  "length (set_x r v h) = length h"
  "length (set_y r v h) = length h"
  "length (set_z r v h) = length h"
  by (simp_all add: set_x_def set_y_def set_z_def)

lemma set_other:
  "r \<noteq> c \<Longrightarrow> set_x c v h ! r = h ! r"
  "r \<noteq> c \<Longrightarrow> set_y c v h ! r = h ! r"
  "r \<noteq> c \<Longrightarrow> set_z c v h ! r = h ! r"
  by (simp_all add: set_x_def set_y_def set_z_def)

lemma set_take:
  "n \<le> c \<Longrightarrow> take n (set_x c v h) = take n h"
  "n \<le> c \<Longrightarrow> take n (set_y c v h) = take n h"
  "n \<le> c \<Longrightarrow> take n (set_z c v h) = take n h"
  by (simp_all add: set_x_def set_y_def set_z_def)

text \<open>What each method does to the store.\<close>

lemma allocates_new_Vector: "allocates h (new_Vector x y z h)"
  by (simp add: allocates_def new_Vector_def)

lemma allocates_instance_op: "allocates h (instance_op f a b h)"
  by (simp add: allocates_def instance_op_eq)

lemma writes_only_static_op: "writes_only c h (static_op f a b (Some c) h)"
  by (cases b) (simp_all add: writes_only_def static_op_def out_or_new_def Let_def set_other)

lemma allocates_static_op: "allocates h (static_op f a b None h)"
  by (cases b)
     (simp_all add: allocates_def static_op_def out_or_new_def new_Vector_def Let_def set_take)

lemma writes_only_negative: "writes_only c h (Vector_negative a (Some c) h)"
  by (simp add: writes_only_def Vector_negative_def out_or_new_def Let_def set_other)

lemma allocates_negative: "allocates h (Vector_negative a None h)"
  by (simp add: allocates_def Vector_negative_def out_or_new_def new_Vector_def Let_def set_take)

lemma writes_only_cross: "writes_only c h (Vector_cross a b (Some c) h)"
  by (simp add: writes_only_def Vector_cross_def out_or_new_def Let_def set_other)

lemma allocates_cross: "allocates h (Vector_cross a b None h)"
  by (simp add: allocates_def Vector_cross_def out_or_new_def new_Vector_def Let_def set_take)

lemma writes_only_unit: "writes_only c h (Vector_unit a (Some c) h)"
  by (simp add: writes_only_def Vector_unit_def out_or_new_def Let_def set_other)

lemma allocates_unit: "allocates h (Vector_unit a None h)"
  by (simp add: allocates_def Vector_unit_def out_or_new_def new_Vector_def Let_def set_take)

lemma writes_only_init: "writes_only this h (init this x y z h)"
  by (simp add: writes_only_def init_def set_other)

lemma init_result:
  "this < length h \<Longrightarrow> result (init this x y z h) = \<lparr>vx = x, vy = y, vz = z\<rparr>"
  by (simp add: result_def init_def set_x_def set_y_def set_z_def)

lemma tests_heap_eq:
  "tests_heap = [\<lparr>vx = Fin 1, vy = Fin 2, vz = Fin 3\<rparr>, \<lparr>vx = Fin 4, vy = Fin 5, vz = Fin 6\<rparr>]"
  by (simp add: tests_heap_def new_Vector_def js_or_def truthy_def)

text \<open>
  The assertions of the test suite hold in the model: \<open>v1.add(1)\<close>, \<open>v1.add(v2)\<close>,
  \<open>v1.subtract(1)\<close>, \<open>v1.subtract(v2)\<close> and their static forms, each compared by
  \<open>equals\<close> with the expected vector.
\<close>

lemma tests_instance_methods:
  "(case add 0 (Scalar (Fin 1)) tests_heap of (s, h1) \<Rightarrow>
      case new_Vector (Some (Fin 2)) (Some (Fin 3)) (Some (Fin 4)) h1 of (e, h2) \<Rightarrow> equals s e h2)"
  "(case add 0 (VectorRef 1) tests_heap of (s, h1) \<Rightarrow>
      case new_Vector (Some (Fin 5)) (Some (Fin 7)) (Some (Fin 9)) h1 of (e, h2) \<Rightarrow> equals s e h2)"
  "(case subtract 0 (Scalar (Fin 1)) tests_heap of (s, h1) \<Rightarrow>
      case new_Vector (Some (Fin 0)) (Some (Fin 1)) (Some (Fin 2)) h1 of (e, h2) \<Rightarrow> equals s e h2)"
  "(case subtract 0 (VectorRef 1) tests_heap of (s, h1) \<Rightarrow>
      case new_Vector (Some (Fin (- 3))) (Some (Fin (- 3))) (Some (Fin (- 3))) h1 of (e, h2) \<Rightarrow>
        equals s e h2)"
  by (simp_all add: tests_heap_eq add_def subtract_def instance_op_def new_Vector_def equals_def
                    num_sub_def js_or_def truthy_def strict_eq_def nth_append)

lemma tests_static_methods:
  "(case Vector_add 0 (Scalar (Fin 1)) None tests_heap of (s, h1) \<Rightarrow>
      case new_Vector (Some (Fin 2)) (Some (Fin 3)) (Some (Fin 4)) h1 of (e, h2) \<Rightarrow> equals s e h2)"
  "(case Vector_add 0 (VectorRef 1) None tests_heap of (s, h1) \<Rightarrow>
      case new_Vector (Some (Fin 5)) (Some (Fin 7)) (Some (Fin 9)) h1 of (e, h2) \<Rightarrow> equals s e h2)"
  "(case Vector_subtract 0 (Scalar (Fin 1)) None tests_heap of (s, h1) \<Rightarrow>
      case new_Vector (Some (Fin 0)) (Some (Fin 1)) (Some (Fin 2)) h1 of (e, h2) \<Rightarrow> equals s e h2)"
  "(case Vector_subtract 0 (VectorRef 1) None tests_heap of (s, h1) \<Rightarrow>
      case new_Vector (Some (Fin (- 3))) (Some (Fin (- 3))) (Some (Fin (- 3))) h1 of (e, h2) \<Rightarrow>
        equals s e h2)"
  by (simp_all add: tests_heap_eq Vector_add_def Vector_subtract_def static_op_def out_or_new_def
                    Let_def set_x_def set_y_def set_z_def new_Vector_def equals_def
                    num_sub_def js_or_def truthy_def strict_eq_def nth_append)

section \<open>The properties\<close>

text \<open>
  C1, as stated, fails: \<open>Vector.divide(a, 0)\<close> on \<open>a = (0, 0, 0)\<close> stores the three NaN
  quotients, while \<open>a.divide(0)\<close> passes them to the constructor and returns \<open>(0, 0, 0)\<close>.
\<close>

theorem static_divide_NaN_counterexample:
  "result (Vector_divide 0 (Scalar (Fin 0)) None [\<lparr>vx = Fin 0, vy = Fin 0, vz = Fin 0\<rparr>])
     = \<lparr>vx = NaN, vy = NaN, vz = NaN\<rparr> \<and>
   result (divide_v 0 (Scalar (Fin 0)) [\<lparr>vx = Fin 0, vy = Fin 0, vz = Fin 0\<rparr>])
     = \<lparr>vx = Fin 0, vy = Fin 0, vz = Fin 0\<rparr> \<and>
   \<not> same_fields
       (result (Vector_divide 0 (Scalar (Fin 0)) None [\<lparr>vx = Fin 0, vy = Fin 0, vz = Fin 0\<rparr>]))
       (result (divide_v 0 (Scalar (Fin 0)) [\<lparr>vx = Fin 0, vy = Fin 0, vz = Fin 0\<rparr>]))"
  by (simp add: Vector_divide_def divide_v_def static_op_def instance_op_def out_or_new_def
                new_Vector_def Let_def set_x_def set_y_def set_z_def result_def num_div_def
                js_or_def truthy_def same_fields_def strict_eq_def nth_append)

text \<open>
  C1, amended. For each of \<open>add\<close>, \<open>subtract\<close>, \<open>multiply\<close>, \<open>divide\<close>, every vector \<open>a\<close>
  and every second operand \<open>b\<close> (a Vector, combined component by component, or a scalar,
  broadcast): the static form writes the three results into \<open>out\<close> and returns \<open>out\<close>
  itself, a newly allocated vector when \<open>out\<close> is omitted; the instance form returns a new
  vector holding the same three results passed through the constructor's \<open>|| 0\<close>. The two
  agree under \<open>===\<close> on every component whenever no result is NaN; a NaN result is NaN in
  the static form and 0 in the instance form.
\<close>

theorem static_is_instance_before_constructor:
  assumes "a < length h" "operand_ok b h"
    and "(sop, iop, f) \<in> {(Vector_add, add, num_add), (Vector_subtract, subtract, num_sub),
                           (Vector_multiply, multiply, num_mul), (Vector_divide, divide_v, num_div)}"
  shows "allocates h (sop a b None h) \<and>
         result (sop a b None h) = componentwise f (h ! a) (operand_value b h) \<and>
         (\<forall>c < length h.
            fst (sop a b (Some c) h) = c \<and>
            length (snd (sop a b (Some c) h)) = length h \<and>
            result (sop a b (Some c) h) = componentwise f (h ! a) (operand_value b h)) \<and>
         allocates h (iop a b h) \<and>
         result (iop a b h) = coerce (componentwise f (h ! a) (operand_value b h)) \<and>
         (nan_free (componentwise f (h ! a) (operand_value b h)) \<longrightarrow>
            same_fields (result (iop a b h)) (result (sop a b None h)))"
proof -
  from assms(3) have sop: "sop = static_op f" and iop: "iop = instance_op f"
    by (auto simp: Vector_add_def Vector_subtract_def Vector_multiply_def Vector_divide_def
                   add_def subtract_def multiply_def divide_v_def)
  let ?r = "componentwise f (h ! a) (operand_value b h)"
  have none: "result (static_op f a b None h) = ?r"
    using assms(1,2) by (simp add: static_op_none result_def)
  have some: "fst (static_op f a b (Some c) h) = c \<and>
      length (snd (static_op f a b (Some c) h)) = length h \<and>
      result (static_op f a b (Some c) h) = ?r" if "c < length h" for c
    using assms(1,2) that by (simp add: static_op_some result_def)
  have inst: "result (instance_op f a b h) = coerce ?r"
    by (simp add: instance_op_eq result_def)
  have "same_fields (result (instance_op f a b h)) (result (static_op f a b None h))"
    if "nan_free ?r"
    using that by (simp only: inst none same_fields_coerce)
  with none some inst show ?thesis
    by (simp add: sop iop allocates_static_op allocates_instance_op)
qed

theorem static_is_instance_before_constructor_witness:
  "result (Vector_add 0 (VectorRef 1) None tests_heap) = \<lparr>vx = Fin 5, vy = Fin 7, vz = Fin 9\<rparr> \<and>
   result (add 0 (VectorRef 1) tests_heap) = \<lparr>vx = Fin 5, vy = Fin 7, vz = Fin 9\<rparr> \<and>
   fst (Vector_add 0 (VectorRef 1) (Some 1) tests_heap) = 1 \<and>
   result (Vector_add 0 (VectorRef 1) (Some 1) tests_heap) = \<lparr>vx = Fin 5, vy = Fin 7, vz = Fin 9\<rparr> \<and>
   same_fields (result (add 0 (VectorRef 1) tests_heap))
               (result (Vector_add 0 (VectorRef 1) None tests_heap))"
proof -
  have len: "length tests_heap = 2"
    by (simp add: tests_heap_eq)
  have sum: "componentwise num_add (tests_heap ! 0) (operand_value (VectorRef 1) tests_heap)
               = \<lparr>vx = Fin 5, vy = Fin 7, vz = Fin 9\<rparr>"
    by (simp add: tests_heap_eq componentwise_def)
  have "0 < length tests_heap" and "operand_ok (VectorRef 1) tests_heap"
    and "(Vector_add, add, num_add) \<in>
           {(Vector_add, add, num_add), (Vector_subtract, subtract, num_sub),
            (Vector_multiply, multiply, num_mul), (Vector_divide, divide_v, num_div)}"
    by (simp_all add: len)
  from static_is_instance_before_constructor [OF this, unfolded sum]
  show ?thesis
    by (simp add: len nan_free_def coerce_def js_or_def truthy_def same_fields_def strict_eq_def)
qed

text \<open>
  C2, as stated, fails: \<open>toArray(-1)\<close> returns the first two components, where clamping
  \<open>-1\<close> to the range from 0 to 3 gives no component (or all three, if the clamped 0 is then
  read as 3).
\<close>

theorem toArray_negative_counterexample:
  "toArray 0 (Some (Fin (- 1))) [\<lparr>vx = Fin 1, vy = Fin 2, vz = Fin 3\<rparr>] = [Fin 1, Fin 2] \<and>
   toArray_clamped 0 (Some (Fin (- 1))) [\<lparr>vx = Fin 1, vy = Fin 2, vz = Fin 3\<rparr>] = [] \<and>
   toArray 0 (Some (Fin (- 1))) [\<lparr>vx = Fin 1, vy = Fin 2, vz = Fin 3\<rparr>] \<noteq> [Fin 1, Fin 2, Fin 3]"
proof -
  have "\<lceil>- 1::real\<rceil> = - 1"
    by (simp add: ceiling_unique)
  then show ?thesis
    by (simp add: toArray_def toArray_clamped_def slice0_def js_or_def truthy_def trunc_def)
qed

text \<open>
  C2, amended. For every vector and every \<open>n\<close> outside \<open>-3 < n \<le> -1\<close>, \<open>toArray(n)\<close>
  returns the first \<open>n\<close> components with \<open>n\<close> clamped to the range from 0 to 3 (a fraction
  is truncated), and \<open>n\<close> omitted, 0 or NaN behaves as 3. For \<open>-3 < n \<le> -1\<close> the end is
  counted back from the length 3: the first \<open>3 + \<lceil>n\<rceil>\<close> components are returned.
\<close>

theorem toArray_clamped_unless_counted_back:
  "((\<forall>r. n = Some (Fin r) \<longrightarrow> \<not> (- 3 < r \<and> r \<le> - 1)) \<longrightarrow>
      toArray v n h = toArray_clamped v n h) \<and>
   (\<forall>r. n = Some (Fin r) \<and> - 3 < r \<and> r \<le> - 1 \<longrightarrow>
      toArray v n h = take (nat (3 + \<lceil>r\<rceil>)) [vx (h ! v), vy (h ! v), vz (h ! v)])"
proof (intro conjI impI allI)
  assume out: "\<forall>r. n = Some (Fin r) \<longrightarrow> \<not> (- 3 < r \<and> r \<le> - 1)"
  show "toArray v n h = toArray_clamped v n h"
  proof (cases n)
    case None
    then show ?thesis by (simp add: toArray_default toArray_clamped_other)
  next
    case (Some x)
    show ?thesis
    proof (cases x)
      case (Fin r)
      with Some out have "\<not> (- 3 < r \<and> r \<le> - 1)" by simp
      with Some Fin show ?thesis by (simp add: toArray_eq_clamped_Fin)
    qed (simp_all add: Some toArray_default toArray_inf toArray_clamped_other)
  qed
next
  fix r
  assume "n = Some (Fin r) \<and> - 3 < r \<and> r \<le> - 1"
  then show "toArray v n h = take (nat (3 + \<lceil>r\<rceil>)) [vx (h ! v), vy (h ! v), vz (h ! v)]"
    by (simp add: toArray_neg)
qed

theorem toArray_clamped_unless_counted_back_witness:
  "toArray 0 (Some (Fin 2)) [\<lparr>vx = Fin 1, vy = Fin 2, vz = Fin 3\<rparr>] = [Fin 1, Fin 2] \<and>
   toArray 0 None [\<lparr>vx = Fin 1, vy = Fin 2, vz = Fin 3\<rparr>] = [Fin 1, Fin 2, Fin 3] \<and>
   toArray 0 (Some (Fin (- 2))) [\<lparr>vx = Fin 1, vy = Fin 2, vz = Fin 3\<rparr>] = [Fin 1]"
  using toArray_clamped_unless_counted_back
          [of "Some (Fin 2)" 0 "[\<lparr>vx = Fin 1, vy = Fin 2, vz = Fin 3\<rparr>]"]
        toArray_clamped_unless_counted_back
          [of None 0 "[\<lparr>vx = Fin 1, vy = Fin 2, vz = Fin 3\<rparr>]"]
        toArray_clamped_unless_counted_back
          [of "Some (Fin (- 2))" 0 "[\<lparr>vx = Fin 1, vy = Fin 2, vz = Fin 3\<rparr>]"]
  by (simp add: toArray_clamped_def js_or_def truthy_def)

text \<open>
  C3, as stated, fails: a NaN argument is supplied and is not \<open>undefined\<close>, yet the
  constructor stores 0, so the component does not equal the argument.
\<close>

theorem new_Vector_NaN_counterexample:
  "vx (result (new_Vector (Some NaN) (Some (Fin 1)) (Some (Fin 2)) [])) = Fin 0 \<and>
   vx (result (new_Vector (Some NaN) (Some (Fin 1)) (Some (Fin 2)) [])) \<noteq> NaN \<and>
   \<not> strict_eq (vx (result (new_Vector (Some NaN) (Some (Fin 1)) (Some (Fin 2)) []))) NaN"
  by (simp add: new_Vector_def result_def js_or_def truthy_def strict_eq_def)

text \<open>
  C3, amended. \<open>new Vector(x, y, z)\<close> allocates a vector each of whose components is 0
  when the argument is omitted or falsy (0, -0, NaN), is the argument itself when the
  argument is truthy, and is \<open>===\<close> to the argument whenever the argument is supplied and
  is not NaN. Defaulting only \<open>undefined\<close> would differ from the source at NaN (and at the
  sign of -0).
\<close>

theorem new_Vector_fields:
  "fst (new_Vector x y z h) = length h \<and>
   field_of_arg x (vx (result (new_Vector x y z h))) \<and>
   field_of_arg y (vy (result (new_Vector x y z h))) \<and>
   field_of_arg z (vz (result (new_Vector x y z h)))"
  by (auto simp: new_Vector_def result_def field_of_arg_def js_or_def strict_eq_def truthy_def
           split: option.splits)

theorem new_Vector_fields_witness:
  "result (new_Vector (Some (Fin 5)) None (Some NZero) []) = \<lparr>vx = Fin 5, vy = Fin 0, vz = Fin 0\<rparr>"
  using new_Vector_fields [of "Some (Fin 5)" None "Some NZero" "[]"]
  by (simp add: field_of_arg_def truthy_def new_Vector_def result_def js_or_def)

text \<open>
  C4, as stated, fails for the static forms: when the caller passes the operand \<open>a\<close> as
  \<open>out\<close>, the call overwrites \<open>a\<close>.
\<close>

theorem static_out_is_operand_counterexample:
  "snd (Vector_add 0 (Scalar (Fin 1)) (Some 0) [\<lparr>vx = Fin 1, vy = Fin 2, vz = Fin 3\<rparr>]) ! 0
     = \<lparr>vx = Fin 2, vy = Fin 3, vz = Fin 4\<rparr> \<and>
   snd (Vector_add 0 (Scalar (Fin 1)) (Some 0) [\<lparr>vx = Fin 1, vy = Fin 2, vz = Fin 3\<rparr>]) ! 0
     \<noteq> [\<lparr>vx = Fin 1, vy = Fin 2, vz = Fin 3\<rparr>] ! 0"
  by (simp add: Vector_add_def static_op_def out_or_new_def Let_def set_x_def set_y_def set_z_def)

text \<open>
  C4, amended. Each instance operation (\<open>add\<close>, \<open>subtract\<close>, \<open>multiply\<close>, \<open>divide\<close>,
  \<open>cross\<close>, \<open>negative\<close>, \<open>unit\<close>) returns a newly allocated vector and leaves every
  existing object, so \<open>a\<close> and \<open>b\<close>, unchanged. Each static form returns \<open>out\<close> and writes
  only into it, leaving every other object unchanged (so \<open>a\<close> and \<open>b\<close> are unchanged unless
  one of them is passed as \<open>out\<close>); with \<open>out\<close> omitted it allocates the vector it returns.
  \<open>init(x, y, z)\<close> is the one instance method that writes into its receiver: it sets the
  three fields, changes no other object, and returns the receiver.
\<close>

theorem operations_frame:
  "allocates h (add a b h) \<and> allocates h (subtract a b h) \<and>
   allocates h (multiply a b h) \<and> allocates h (divide_v a b h) \<and>
   allocates h (cross a v h) \<and> allocates h (negative a h) \<and> allocates h (unit a h) \<and>
   writes_only c h (Vector_add a b (Some c) h) \<and> allocates h (Vector_add a b None h) \<and>
   writes_only c h (Vector_subtract a b (Some c) h) \<and> allocates h (Vector_subtract a b None h) \<and>
   writes_only c h (Vector_multiply a b (Some c) h) \<and> allocates h (Vector_multiply a b None h) \<and>
   writes_only c h (Vector_divide a b (Some c) h) \<and> allocates h (Vector_divide a b None h) \<and>
   writes_only c h (Vector_cross a v (Some c) h) \<and> allocates h (Vector_cross a v None h) \<and>
   writes_only c h (Vector_negative a (Some c) h) \<and> allocates h (Vector_negative a None h) \<and>
   writes_only c h (Vector_unit a (Some c) h) \<and> allocates h (Vector_unit a None h) \<and>
   writes_only a h (init a x y z h) \<and>
   (a < length h \<longrightarrow> result (init a x y z h) = \<lparr>vx = x, vy = y, vz = z\<rparr>)"
  by (simp add: add_def subtract_def multiply_def divide_v_def unit_def cross_def negative_def
      Vector_add_def Vector_subtract_def Vector_multiply_def Vector_divide_def
      allocates_new_Vector allocates_instance_op writes_only_static_op allocates_static_op
      writes_only_negative allocates_negative writes_only_cross allocates_cross writes_only_unit
      allocates_unit writes_only_init init_result)

theorem operations_frame_witness:
  "fst (add 0 (VectorRef 1) tests_heap) = 2 \<and>
   take 2 (snd (add 0 (VectorRef 1) tests_heap)) = tests_heap \<and>
   fst (Vector_subtract 0 (Scalar (Fin 1)) (Some 1) tests_heap) = 1 \<and>
   snd (Vector_subtract 0 (Scalar (Fin 1)) (Some 1) tests_heap) ! 0 = tests_heap ! 0 \<and>
   result (init 0 (Fin 7) (Fin 8) (Fin 9) tests_heap) = \<lparr>vx = Fin 7, vy = Fin 8, vz = Fin 9\<rparr> \<and>
   snd (init 0 (Fin 7) (Fin 8) (Fin 9) tests_heap) ! 1 = tests_heap ! 1"
proof -
  note frame = operations_frame [of tests_heap 0 _ 1 1 "Fin 7" "Fin 8" "Fin 9"]
  have len: "length tests_heap = 2"
    by (simp add: tests_heap_eq)
  have "allocates tests_heap (add 0 (VectorRef 1) tests_heap)"
    using frame [of "VectorRef 1"] by blast
  then have alloc: "fst (add 0 (VectorRef 1) tests_heap) = 2 \<and>
      take 2 (snd (add 0 (VectorRef 1) tests_heap)) = tests_heap"
    by (simp add: allocates_def len)
  have "writes_only 1 tests_heap (Vector_subtract 0 (Scalar (Fin 1)) (Some 1) tests_heap)"
    using frame [of "Scalar (Fin 1)"] by blast
  then have static: "fst (Vector_subtract 0 (Scalar (Fin 1)) (Some 1) tests_heap) = 1 \<and>
      snd (Vector_subtract 0 (Scalar (Fin 1)) (Some 1) tests_heap) ! 0 = tests_heap ! 0"
    by (simp add: writes_only_def len)
  have "writes_only 0 tests_heap (init 0 (Fin 7) (Fin 8) (Fin 9) tests_heap)"
    and "0 < length tests_heap \<longrightarrow>
      result (init 0 (Fin 7) (Fin 8) (Fin 9) tests_heap) = \<lparr>vx = Fin 7, vy = Fin 8, vz = Fin 9\<rparr>"
    using frame [of "Scalar (Fin 1)"] by blast+
  then have "result (init 0 (Fin 7) (Fin 8) (Fin 9) tests_heap) = \<lparr>vx = Fin 7, vy = Fin 8, vz = Fin 9\<rparr> \<and>
      snd (init 0 (Fin 7) (Fin 8) (Fin 9) tests_heap) ! 1 = tests_heap ! 1"
    by (simp add: writes_only_def len)
  with alloc static show ?thesis by blast
qed

text \<open>
  C5, as stated, fails for the instance form: \<open>new Vector(0, 0, 0).unit()\<close> is
  \<open>this.divide(0)\<close>, whose three NaN quotients go through the constructor, and the vector
  returned is \<open>(0, 0, 0)\<close>.
\<close>

theorem unit_instance_zero_counterexample:
  "result (unit 0 [\<lparr>vx = Fin 0, vy = Fin 0, vz = Fin 0\<rparr>]) = \<lparr>vx = Fin 0, vy = Fin 0, vz = Fin 0\<rparr> \<and>
   \<not> is_nan (vx (result (unit 0 [\<lparr>vx = Fin 0, vy = Fin 0, vz = Fin 0\<rparr>])))"
  by (simp add: unit_def divide_v_def instance_op_def length_v_def magnitude_def dot_def
                num_mul_def num_div_def signed_zero_def new_Vector_def result_def js_or_def
                truthy_def)

text \<open>
  C5, amended. On a vector whose components are all zero, the static \<open>Vector.unit\<close> stores
  NaN in each component of \<open>out\<close> (a given one, which it returns, or a new one), and the
  instance \<open>unit()\<close> returns a new vector \<open>(0, 0, 0)\<close>. Neither form guards the zero length,
  and neither has an error branch.
\<close>

theorem unit_of_zero_vector:
  assumes "a < length h" "all_zero (h ! a)"
  shows "result (Vector_unit a None h) = \<lparr>vx = NaN, vy = NaN, vz = NaN\<rparr> \<and>
         (\<forall>b < length h. fst (Vector_unit a (Some b) h) = b \<and>
            result (Vector_unit a (Some b) h) = \<lparr>vx = NaN, vy = NaN, vz = NaN\<rparr>) \<and>
         result (unit a h) = \<lparr>vx = Fin 0, vy = Fin 0, vz = Fin 0\<rparr>"
proof -
  have d: "componentwise num_div (h ! a) (operand_value (Scalar (length_v a h)) h) =
             \<lparr>vx = NaN, vy = NaN, vz = NaN\<rparr>"
    using assms(2) by (rule div_zero_vector) (rule length_v_zero [OF assms(2)])
  have "result (Vector_unit a None h) = \<lparr>vx = NaN, vy = NaN, vz = NaN\<rparr>"
    by (simp only: Vector_unit_none [OF assms(1)] d) (simp add: result_def)
  moreover have "fst (Vector_unit a (Some b) h) = b \<and>
      result (Vector_unit a (Some b) h) = \<lparr>vx = NaN, vy = NaN, vz = NaN\<rparr>"
    if "b < length h" for b
    by (simp only: Vector_unit_some [OF assms(1) that] d) (simp add: result_def that)
  moreover have "result (unit a h) = \<lparr>vx = Fin 0, vy = Fin 0, vz = Fin 0\<rparr>"
    by (simp only: unit_eq d) (simp add: result_def coerce_def js_or_def truthy_def)
  ultimately show ?thesis by blast
qed

theorem unit_of_zero_vector_witness:
  "result (Vector_unit 0 None [\<lparr>vx = Fin 0, vy = Fin 0, vz = Fin 0\<rparr>]) = \<lparr>vx = NaN, vy = NaN, vz = NaN\<rparr> \<and>
   result (Vector_unit 0 (Some 0) [\<lparr>vx = Fin 0, vy = Fin 0, vz = Fin 0\<rparr>]) = \<lparr>vx = NaN, vy = NaN, vz = NaN\<rparr> \<and>
   result (unit 0 [\<lparr>vx = Fin 0, vy = Fin 0, vz = Fin 0\<rparr>]) = \<lparr>vx = Fin 0, vy = Fin 0, vz = Fin 0\<rparr>"
  using unit_of_zero_vector [of 0 "[\<lparr>vx = Fin 0, vy = Fin 0, vz = Fin 0\<rparr>]"]
  by (simp add: all_zero_def)

text \<open>
  C6, as stated, fails: for \<open>phi = Infinity\<close> the three values
  \<open>cos(phi) * cos(theta)\<close>, \<open>sin(phi)\<close>, \<open>cos(phi) * sin(theta)\<close> are NaN, and the
  constructor stores 0 for each of them.
\<close>

theorem fromPhiTheta_infinite_counterexample:
  "result (Vector_fromPhiTheta PInf (Fin 0) []) = \<lparr>vx = Fin 0, vy = Fin 0, vz = Fin 0\<rparr> \<and>
   spherical PInf (Fin 0) = \<lparr>vx = NaN, vy = NaN, vz = NaN\<rparr> \<and>
   result (Vector_fromPhiTheta PInf (Fin 0) []) \<noteq> spherical PInf (Fin 0)"
  by (simp add: Vector_fromPhiTheta_def new_Vector_def result_def spherical_def num_mul_def
                js_or_def truthy_def)

text \<open>
  C6, amended. For every \<open>phi\<close> and \<open>theta\<close>, \<open>fromAngles(theta, phi)\<close> of the one module
  returns exactly what \<open>fromPhiTheta(phi, theta)\<close> of the other returns: a new vector whose
  components are \<open>cos(phi) * cos(theta)\<close>, \<open>sin(phi)\<close>, \<open>cos(phi) * sin(theta)\<close>, each passed
  through the constructor's \<open>|| 0\<close>. For finite \<open>phi\<close> and \<open>theta\<close> the components are
  \<open>===\<close> to these three values.
\<close>

theorem spherical_constructors:
  "Vector_fromAngles theta phi h = Vector_fromPhiTheta phi theta h \<and>
   result (Vector_fromPhiTheta phi theta h) = coerce (spherical phi theta) \<and>
   (finite_number phi \<and> finite_number theta \<longrightarrow>
      same_fields (result (Vector_fromPhiTheta phi theta h)) (spherical phi theta))"
proof (intro conjI impI)
  show "Vector_fromAngles theta phi h = Vector_fromPhiTheta phi theta h"
    by (rule fromAngles_eq)
  show r: "result (Vector_fromPhiTheta phi theta h) = coerce (spherical phi theta)"
    by (simp add: Vector_fromPhiTheta_def new_Vector_result spherical_def)
  assume "finite_number phi \<and> finite_number theta"
  then have "finite_number (vx (spherical phi theta))"
    and "finite_number (vy (spherical phi theta))"
    and "finite_number (vz (spherical phi theta))"
    by (simp_all add: spherical_def num_cos_finite num_sin_finite num_mul_finite)
  then have "nan_free (spherical phi theta)"
    by (simp add: nan_free_def finite_number_def)
  then show "same_fields (result (Vector_fromPhiTheta phi theta h)) (spherical phi theta)"
    by (simp add: r same_fields_coerce)
qed

theorem spherical_constructors_witness:
  "result (Vector_fromPhiTheta (Fin 0) (Fin 0) []) = \<lparr>vx = Fin 1, vy = Fin 0, vz = Fin 0\<rparr> \<and>
   result (Vector_fromAngles (Fin 0) (Fin 0) []) = \<lparr>vx = Fin 1, vy = Fin 0, vz = Fin 0\<rparr> \<and>
   same_fields (result (Vector_fromPhiTheta (Fin 0) (Fin 0) [])) (spherical (Fin 0) (Fin 0))"
  using spherical_constructors [of "Fin 0" "Fin 0" "[]"]
  by (simp add: finite_number_def spherical_def coerce_def num_mul_def js_or_def truthy_def
                signed_zero_def same_fields_def strict_eq_def)

text \<open>
  C7, as stated, fails: when \<open>a\<close> has a NaN component, \<open>lerp(a, b, 0)\<close> is \<open>(0, 0, 0)\<close>
  in that component and does not equal \<open>a\<close>.
\<close>

theorem lerp_NaN_counterexample:
  "\<not> equals
       (fst (Vector_lerp 0 1 (Fin 0)
               [\<lparr>vx = NaN, vy = Fin 2, vz = Fin 3\<rparr>, \<lparr>vx = Fin 4, vy = Fin 5, vz = Fin 6\<rparr>]))
       0
       (snd (Vector_lerp 0 1 (Fin 0)
               [\<lparr>vx = NaN, vy = Fin 2, vz = Fin 3\<rparr>, \<lparr>vx = Fin 4, vy = Fin 5, vz = Fin 6\<rparr>])) \<and>
   result (Vector_lerp 0 1 (Fin 0)
             [\<lparr>vx = NaN, vy = Fin 2, vz = Fin 3\<rparr>, \<lparr>vx = Fin 4, vy = Fin 5, vz = Fin 6\<rparr>])
     = \<lparr>vx = Fin 0, vy = Fin 2, vz = Fin 3\<rparr>"
  by (simp add: Vector_lerp_def multiply_def add_def instance_op_def new_Vector_def equals_def
                result_def num_sub_def num_mul_def js_or_def truthy_def strict_eq_def
                signed_zero_def nth_append)

text \<open>
  C7, amended. For all vectors \<open>a\<close> and \<open>b\<close>, \<open>lerp(a, b, 0)\<close> equals \<open>a\<close> exactly when
  \<open>a\<close> has no NaN component, and \<open>lerp(a, b, 1)\<close> equals \<open>b\<close> exactly when \<open>b\<close> has no NaN
  component (\<open>equals\<close> being the library's comparison). For every \<open>t\<close>, \<open>lerp(a, b, t)\<close> is
  \<open>a.multiply(1 - t).add(b.multiply(t))\<close> with \<open>t\<close> not clamped, each of the three vectors
  built by the constructor.
\<close>

theorem lerp_endpoints:
  assumes "a < length h" "b < length h"
  shows "equals (fst (Vector_lerp a b (Fin 0) h)) a (snd (Vector_lerp a b (Fin 0) h))
           = nan_free (h ! a) \<and>
         equals (fst (Vector_lerp a b (Fin 1) h)) b (snd (Vector_lerp a b (Fin 1) h))
           = nan_free (h ! b) \<and>
         result (Vector_lerp a b t h) =
           coerce (componentwise num_add
             (coerce (componentwise num_mul (h ! a) (operand_value (Scalar (num_sub (Fin 1) t)) h)))
             (coerce (componentwise num_mul (h ! b) (operand_value (Scalar t) h))))"
proof (intro conjI)
  have "equals (length h + 2) a (snd (Vector_lerp a b (Fin 0) h)) = nan_free (h ! a)"
    using assms lerp0_field strict_eq_nan
    by (simp add: Vector_lerp_eq equals_def nth_append coerce_def componentwise_def nan_free_def)
       blast
  then show "equals (fst (Vector_lerp a b (Fin 0) h)) a (snd (Vector_lerp a b (Fin 0) h))
               = nan_free (h ! a)"
    using assms by (simp add: Vector_lerp_eq)
  have "equals (length h + 2) b (snd (Vector_lerp a b (Fin 1) h)) = nan_free (h ! b)"
    using assms lerp1_field strict_eq_nan
    by (simp add: Vector_lerp_eq equals_def nth_append coerce_def componentwise_def nan_free_def)
       blast
  then show "equals (fst (Vector_lerp a b (Fin 1) h)) b (snd (Vector_lerp a b (Fin 1) h))
               = nan_free (h ! b)"
    using assms by (simp add: Vector_lerp_eq)
  show "result (Vector_lerp a b t h) =
           coerce (componentwise num_add
             (coerce (componentwise num_mul (h ! a) (operand_value (Scalar (num_sub (Fin 1) t)) h)))
             (coerce (componentwise num_mul (h ! b) (operand_value (Scalar t) h))))"
    using assms by (simp add: Vector_lerp_eq result_def nth_append)
qed

theorem lerp_endpoints_witness:
  "equals
     (fst (Vector_lerp 0 1 (Fin 0)
             [\<lparr>vx = Fin 1, vy = Fin 2, vz = Fin 3\<rparr>, \<lparr>vx = Fin 4, vy = PInf, vz = NaN\<rparr>]))
     0
     (snd (Vector_lerp 0 1 (Fin 0)
             [\<lparr>vx = Fin 1, vy = Fin 2, vz = Fin 3\<rparr>, \<lparr>vx = Fin 4, vy = PInf, vz = NaN\<rparr>])) \<and>
   equals
     (fst (Vector_lerp 1 0 (Fin 1)
             [\<lparr>vx = Fin 1, vy = Fin 2, vz = Fin 3\<rparr>, \<lparr>vx = Fin 4, vy = PInf, vz = NaN\<rparr>]))
     0
     (snd (Vector_lerp 1 0 (Fin 1)
             [\<lparr>vx = Fin 1, vy = Fin 2, vz = Fin 3\<rparr>, \<lparr>vx = Fin 4, vy = PInf, vz = NaN\<rparr>]))"
  using lerp_endpoints
          [of 0 "[\<lparr>vx = Fin 1, vy = Fin 2, vz = Fin 3\<rparr>, \<lparr>vx = Fin 4, vy = PInf, vz = NaN\<rparr>]" 1]
        lerp_endpoints
          [of 1 "[\<lparr>vx = Fin 1, vy = Fin 2, vz = Fin 3\<rparr>, \<lparr>vx = Fin 4, vy = PInf, vz = NaN\<rparr>]" 0]
  by (simp add: nan_free_def)

text \<open>
  C8. For every vector \<open>a\<close>, \<open>a.add(a.negative())\<close> equals \<open>new Vector(0, 0, 0)\<close> under
  \<open>equals\<close>. (An infinite or NaN component gives a NaN sum, which the constructor stores
  as 0.)
\<close>

theorem add_negative_equals_zero:
  assumes "a < length h"
  shows "(case negative a h of (n, h1) \<Rightarrow>
            case add a (VectorRef n) h1 of (s, h2) \<Rightarrow>
              case new_Vector (Some (Fin 0)) (Some (Fin 0)) (Some (Fin 0)) h2 of (z, h3) \<Rightarrow>
                equals s z h3)"
  using assms
  by (simp add: negative_eq add_def instance_op_eq new_Vector_def equals_def nth_append
                coerce_def componentwise_def add_negative_field)
     (simp add: js_or_def truthy_def strict_eq_def)

theorem add_negative_equals_zero_witness:
  "(case negative 0 [\<lparr>vx = Fin 1, vy = PInf, vz = NaN\<rparr>] of (n, h1) \<Rightarrow>
      case add 0 (VectorRef n) h1 of (s, h2) \<Rightarrow>
        case new_Vector (Some (Fin 0)) (Some (Fin 0)) (Some (Fin 0)) h2 of (z, h3) \<Rightarrow>
          equals s z h3)"
  using add_negative_equals_zero [of 0 "[\<lparr>vx = Fin 1, vy = PInf, vz = NaN\<rparr>]"]
  by simp

text \<open>
  The static forms assign the fields without the constructor, and there the sum keeps its NaN:
  for \<open>a = (Infinity, 0, 0)\<close>, \<open>Vector.add(a, Vector.negative(a))\<close> is \<open>(NaN, 0, 0)\<close>.
\<close>

lemma static_add_negative_infinite:
  "(case Vector_negative 0 None [\<lparr>vx = PInf, vy = Fin 0, vz = Fin 0\<rparr>] of (n, h1) \<Rightarrow>
      case Vector_add 0 (VectorRef n) None h1 of (s, h2) \<Rightarrow>
        h2 ! s = \<lparr>vx = NaN, vy = Fin 0, vz = Fin 0\<rparr>)"
  by (simp add: Vector_negative_def Vector_add_def static_op_def out_or_new_def
                    Let_def set_x_def set_y_def set_z_def new_Vector_def 
                    js_or_def truthy_def nth_append)

text \<open>
  C9. \<open>equals\<close> compares each component with \<open>===\<close>, so \<open>v.equals(v)\<close> is true exactly
  when no component of \<open>v\<close> is NaN: true for every vector without a NaN component, false for
  every vector with at least one.
\<close>

theorem equals_reflexive_iff_nan_free:
  "equals v v h = nan_free (h ! v)"
  by (cases "vx (h ! v)"; cases "vy (h ! v)"; cases "vz (h ! v)")
     (simp_all add: equals_def nan_free_def strict_eq_def)

text \<open>
  C10. The static \<open>add\<close>, \<open>subtract\<close>, \<open>multiply\<close> and \<open>divide\<close> may be called with an
  operand as the output: \<open>Vector.op(a, b, a)\<close> and \<open>Vector.op(a, b, b)\<close> leave in that object
  the component-wise result computed from the components that \<open>a\<close> and \<open>b\<close> had before the
  call, and change nothing else.
\<close>

theorem static_ops_alias_safe:
  assumes "a < length h" "operand_ok b h"
    and "(sop, f) \<in> {(Vector_add, num_add), (Vector_subtract, num_sub),
                      (Vector_multiply, num_mul), (Vector_divide, num_div)}"
  shows "sop a b (Some a) h = (a, h[a := componentwise f (h ! a) (operand_value b h)]) \<and>
         (\<forall>r. b = VectorRef r \<longrightarrow>
            sop a b (Some r) h = (r, h[r := componentwise f (h ! a) (h ! r)]))"
proof -
  from assms(3) have sop: "sop = static_op f"
    by (auto simp: Vector_add_def Vector_subtract_def Vector_multiply_def Vector_divide_def)
  have "static_op f a b (Some a) h = (a, h[a := componentwise f (h ! a) (operand_value b h)])"
    using assms(1,2) by (simp add: static_op_some)
  moreover have "static_op f a b (Some r) h = (r, h[r := componentwise f (h ! a) (h ! r)])"
    if "b = VectorRef r" for r
    using assms(1,2) that static_op_some [of a h b r f] by simp
  ultimately show ?thesis by (simp add: sop)
qed

theorem static_ops_alias_safe_witness:
  "Vector_add 0 (VectorRef 1) (Some 0)
     [\<lparr>vx = Fin 1, vy = Fin 2, vz = Fin 3\<rparr>, \<lparr>vx = Fin 4, vy = Fin 5, vz = Fin 6\<rparr>]
   = (0, [\<lparr>vx = Fin 5, vy = Fin 7, vz = Fin 9\<rparr>, \<lparr>vx = Fin 4, vy = Fin 5, vz = Fin 6\<rparr>]) \<and>
   Vector_divide 0 (VectorRef 1) (Some 1)
     [\<lparr>vx = Fin 8, vy = Fin 5, vz = Fin 6\<rparr>, \<lparr>vx = Fin 4, vy = Fin 5, vz = Fin 6\<rparr>]
   = (1, [\<lparr>vx = Fin 8, vy = Fin 5, vz = Fin 6\<rparr>, \<lparr>vx = Fin 2, vy = Fin 1, vz = Fin 1\<rparr>]) \<and>
   Vector_multiply 0 (VectorRef 0) (Some 0) [\<lparr>vx = Fin 1, vy = Fin 2, vz = Fin 3\<rparr>]
   = (0, [\<lparr>vx = Fin 1, vy = Fin 4, vz = Fin 9\<rparr>])"
  using static_ops_alias_safe
          [of 0 "[\<lparr>vx = Fin 1, vy = Fin 2, vz = Fin 3\<rparr>, \<lparr>vx = Fin 4, vy = Fin 5, vz = Fin 6\<rparr>]"
              "VectorRef 1" Vector_add num_add]
        static_ops_alias_safe
          [of 0 "[\<lparr>vx = Fin 8, vy = Fin 5, vz = Fin 6\<rparr>, \<lparr>vx = Fin 4, vy = Fin 5, vz = Fin 6\<rparr>]"
              "VectorRef 1" Vector_divide num_div]
        static_ops_alias_safe
          [of 0 "[\<lparr>vx = Fin 1, vy = Fin 2, vz = Fin 3\<rparr>]" "VectorRef 0" Vector_multiply num_mul]
  by (simp add: componentwise_def num_div_def num_mul_def)

end
